theory Spec2Isabelle
  imports Main
begin

section \<open>Python values reaching the renderer\<close>

text \<open>
  The renderer of \<^verbatim>\<open>src/drf_renderer_xlsx/renderers.py\<close> receives the data a view
  returned. The values modelled are \<^verbatim>\<open>None\<close>, booleans, (unbounded) integers, strings,
  \<^verbatim>\<open>uuid.UUID\<close> objects (a scalar that is neither iterable nor native to JSON), lists and
  dictionaries. A string is a list of code points below 256. A dictionary is the list of
  its items in insertion order, keyed by strings (field names), with its class: the source
  tells \<^verbatim>\<open>ReturnDict\<close> (a subclass of \<^verbatim>\<open>dict\<close>) from a plain \<^verbatim>\<open>dict\<close>. \<^verbatim>\<open>ReturnList\<close> is a
  subclass of \<^verbatim>\<open>list\<close> and the source never tells the two apart, so one constructor
  covers both. Floating-point numbers are not modelled.
\<close>

datatype dict_class = Dict | ReturnDict

datatype pyval =
    PNone
  | PBool bool
  | PInt int
  | PStr string
  | PUUID string
  | PList "pyval list"
  | PDict dict_class "(string \<times> pyval) list"

datatype error =
    TypeError | AttributeError | KeyError | IndexError | UnboundLocalError
  | ValueError | IllegalCharacterError

type_synonym items = "(string \<times> pyval) list"

subsection \<open>Truth value, isinstance tests\<close>

fun truthy :: "pyval \<Rightarrow> bool" where
  "truthy PNone = False"
| "truthy (PBool b) = b"
| "truthy (PInt i) = (i \<noteq> 0)"
| "truthy (PStr s) = (s \<noteq> [])"
| "truthy (PUUID u) = True"
| "truthy (PList xs) = (xs \<noteq> [])"
| "truthy (PDict c kvs) = (kvs \<noteq> [])"

text \<open>\<^verbatim>\<open>isinstance(v, MutableMapping)\<close>\<close>

fun is_mapping :: "pyval \<Rightarrow> bool" where
  "is_mapping (PDict c kvs) = True"
| "is_mapping v = False"

text \<open>\<^verbatim>\<open>isinstance(v, Iterable)\<close>: strings, lists and dictionaries are iterable.\<close>

fun is_iterable :: "pyval \<Rightarrow> bool" where
  "is_iterable (PStr s) = True"
| "is_iterable (PList xs) = True"
| "is_iterable (PDict c kvs) = True"
| "is_iterable v = False"

subsection \<open>\<^verbatim>\<open>str\<close> and \<^verbatim>\<open>repr\<close>\<close>

definition digit_char :: "nat \<Rightarrow> char" where
  "digit_char d = ''0123456789abcdef'' ! (d mod 16)"

function str_nat :: "nat \<Rightarrow> string" where
  "str_nat n = (if n < 10 then [digit_char n] else str_nat (n div 10) @ [digit_char (n mod 10)])"
  by pat_completeness auto
termination
  by (relation "measure (\<lambda>n. n)") auto

declare str_nat.simps [simp del]

definition str_int :: "int \<Rightarrow> string" where
  "str_int i = (if i < 0 then CHR ''-'' # str_nat (nat (- i)) else str_nat (nat i))"

text \<open>\<^verbatim>\<open>sep.join(parts)\<close>\<close>

fun join :: "string \<Rightarrow> string list \<Rightarrow> string" where
  "join sep [] = []"
| "join sep [x] = x"
| "join sep (x # y # ys) = x @ sep @ join sep (y # ys)"

definition hex2 :: "nat \<Rightarrow> string" where
  "hex2 n = [digit_char (n div 16), digit_char (n mod 16)]"

text \<open>
  \<^verbatim>\<open>repr\<close> of a string: single quotes, unless the string holds a single quote and no double
  quote; the quote and the backslash are escaped, tab, newline and carriage return are
  written \<^verbatim>\<open>\t\<close>, \<^verbatim>\<open>\n\<close>, \<^verbatim>\<open>\r\<close>, and every other code point that is not printable is
  written \<^verbatim>\<open>\xhh\<close>.
\<close>

definition printable :: "char \<Rightarrow> bool" where
  "printable c = (let n = (of_char c :: nat) in
     (32 \<le> n \<and> n < 127) \<or> (161 \<le> n \<and> n \<noteq> 173))"

definition repr_char :: "char \<Rightarrow> char \<Rightarrow> string" where
  "repr_char quote c =
     (if c = quote \<or> c = CHR 0x5C then [CHR 0x5C, c]
      else if c = CHR 0x09 then [CHR 0x5C, CHR ''t'']
      else if c = CHR 0x0A then [CHR 0x5C, CHR ''n'']
      else if c = CHR 0x0D then [CHR 0x5C, CHR ''r'']
      else if printable c then [c]
      else [CHR 0x5C, CHR ''x''] @ hex2 (of_char c))"

definition repr_str :: "string \<Rightarrow> string" where
  "repr_str s =
     (let quote = (if CHR 0x27 \<in> set s \<and> CHR 0x22 \<notin> set s then CHR 0x22 else CHR 0x27)
      in quote # concat (map (repr_char quote) s) @ [quote])"

fun py_repr :: "pyval \<Rightarrow> string"
  and repr_list :: "pyval list \<Rightarrow> string list"
  and repr_items :: "(string \<times> pyval) list \<Rightarrow> string list" where
  "py_repr PNone = ''None''"
| "py_repr (PBool b) = (if b then ''True'' else ''False'')"
| "py_repr (PInt i) = str_int i"
| "py_repr (PStr s) = repr_str s"
| "py_repr (PUUID u) = ''UUID('' @ repr_str u @ '')''"
| "py_repr (PList xs) = ''['' @ join '', '' (repr_list xs) @ '']''"
| "py_repr (PDict c kvs) = ''{'' @ join '', '' (repr_items kvs) @ ''}''"
| "repr_list [] = []"
| "repr_list (x # xs) = py_repr x # repr_list xs"
| "repr_items [] = []"
| "repr_items ((k, v) # kvs) = (repr_str k @ '': '' @ py_repr v) # repr_items kvs"

definition py_str :: "pyval \<Rightarrow> string" where
  "py_str v = (case v of PStr s \<Rightarrow> s | PUUID u \<Rightarrow> u | _ \<Rightarrow> py_repr v)"

subsection \<open>\<^verbatim>\<open>json.dumps\<close>\<close>

text \<open>
  With \<^verbatim>\<open>ensure_ascii\<close> (the default) a string is written between double quotes; the
  double quote and the backslash are escaped, backspace, form feed, newline, carriage
  return and tab have their short escapes, and every other code point outside
  \<^verbatim>\<open>' '..'~'\<close> is written \<^verbatim>\<open>\u00hh\<close>.
\<close>

definition json_escape_char :: "char \<Rightarrow> string" where
  "json_escape_char c =
     (if c = CHR 0x5C then [CHR 0x5C, CHR 0x5C]
      else if c = CHR 0x22 then [CHR 0x5C, CHR 0x22]
      else if c = CHR 0x08 then [CHR 0x5C, CHR ''b'']
      else if c = CHR 0x0C then [CHR 0x5C, CHR ''f'']
      else if c = CHR 0x0A then [CHR 0x5C, CHR ''n'']
      else if c = CHR 0x0D then [CHR 0x5C, CHR ''r'']
      else if c = CHR 0x09 then [CHR 0x5C, CHR ''t'']
      else if 32 \<le> (of_char c :: nat) \<and> (of_char c :: nat) \<le> 126 then [c]
      else [CHR 0x5C, CHR ''u'', CHR ''0'', CHR ''0''] @ hex2 (of_char c))"

definition json_str :: "string \<Rightarrow> string" where
  "json_str s = CHR 0x22 # concat (map json_escape_char s) @ [CHR 0x22]"

text \<open>
  The text \<^verbatim>\<open>json.dumps\<close> writes, with the default separators. A \<^verbatim>\<open>UUID\<close> is written as
  \<^verbatim>\<open>DjangoJSONEncoder\<close> writes it, the string of its \<^verbatim>\<open>str\<close>; the default encoder
  rejects it (see \<open>json_native\<close>).
\<close>

fun json_text :: "pyval \<Rightarrow> string"
  and json_list :: "pyval list \<Rightarrow> string list"
  and json_items :: "(string \<times> pyval) list \<Rightarrow> string list" where
  "json_text PNone = ''null''"
| "json_text (PBool b) = (if b then ''true'' else ''false'')"
| "json_text (PInt i) = str_int i"
| "json_text (PStr s) = json_str s"
| "json_text (PUUID u) = json_str u"
| "json_text (PList xs) = ''['' @ join '', '' (json_list xs) @ '']''"
| "json_text (PDict c kvs) = ''{'' @ join '', '' (json_items kvs) @ ''}''"
| "json_list [] = []"
| "json_list (x # xs) = json_text x # json_list xs"
| "json_items [] = []"
| "json_items ((k, v) # kvs) = (json_str k @ '': '' @ json_text v) # json_items kvs"

text \<open>The values the default encoder of \<^verbatim>\<open>json.dumps\<close> accepts: no \<^verbatim>\<open>UUID\<close> inside.\<close>

fun json_native :: "pyval \<Rightarrow> bool"
  and json_native_list :: "pyval list \<Rightarrow> bool"
  and json_native_items :: "(string \<times> pyval) list \<Rightarrow> bool" where
  "json_native (PUUID u) = False"
| "json_native (PList xs) = json_native_list xs"
| "json_native (PDict c kvs) = json_native_items kvs"
| "json_native PNone = True"
| "json_native (PBool b) = True"
| "json_native (PInt i) = True"
| "json_native (PStr s) = True"
| "json_native_list [] = True"
| "json_native_list (x # xs) = (json_native x \<and> json_native_list xs)"
| "json_native_items [] = True"
| "json_native_items ((k, v) # kvs) = (json_native v \<and> json_native_items kvs)"

text \<open>\<^verbatim>\<open>json.dumps(v)\<close>, which raises \<^verbatim>\<open>TypeError\<close> on an object it cannot serialise.\<close>

definition json_dumps :: "pyval \<Rightarrow> error + string" where
  "json_dumps v = (if json_native v then Inr (json_text v) else Inl TypeError)"

text \<open>\<^verbatim>\<open>json.dumps(v, cls=DjangoJSONEncoder)\<close>, total on the values modelled.\<close>

definition json_dumps_django :: "pyval \<Rightarrow> string" where
  "json_dumps_django v = json_text v"

section \<open>Errors as values\<close>

text \<open>An exception ends the call: the rest runs only on a result.\<close>

definition ebind :: "error + 'a \<Rightarrow> ('a \<Rightarrow> error + 'b) \<Rightarrow> error + 'b" where
  "ebind m f = (case m of Inl e \<Rightarrow> Inl e | Inr x \<Rightarrow> f x)"

section \<open>Operators of the language the renderer uses\<close>

fun starts_with :: "string \<Rightarrow> string \<Rightarrow> bool" where
  "starts_with [] s = True"
| "starts_with (c # cs) [] = False"
| "starts_with (c # cs) (d # ds) = (c = d \<and> starts_with cs ds)"

fun substring :: "string \<Rightarrow> string \<Rightarrow> bool" where
  "substring key [] = (key = [])"
| "substring key (d # ds) = (starts_with key (d # ds) \<or> substring key ds)"

text \<open>
  \<^verbatim>\<open>key in data\<close> for a string \<^verbatim>\<open>key\<close>: a key of a dictionary, an element of a list, a
  substring of a string; \<^verbatim>\<open>TypeError\<close> on a value that is not iterable.
\<close>

fun py_contains :: "string \<Rightarrow> pyval \<Rightarrow> error + bool" where
  "py_contains key (PDict c kvs) = Inr (key \<in> set (map fst kvs))"
| "py_contains key (PList xs) = Inr (PStr key \<in> set xs)"
| "py_contains key (PStr s) = Inr (substring key s)"
| "py_contains key v = Inl TypeError"

text \<open>\<^verbatim>\<open>data[key]\<close> for a string \<^verbatim>\<open>key\<close>.\<close>

fun py_getitem_str :: "pyval \<Rightarrow> string \<Rightarrow> error + pyval" where
  "py_getitem_str (PDict c kvs) key =
     (case map_of kvs key of None \<Rightarrow> Inl KeyError | Some v \<Rightarrow> Inr v)"
| "py_getitem_str v key = Inl TypeError"

text \<open>\<^verbatim>\<open>len(v)\<close>\<close>

fun py_len :: "pyval \<Rightarrow> error + nat" where
  "py_len (PDict c kvs) = Inr (length kvs)"
| "py_len (PList xs) = Inr (length xs)"
| "py_len (PStr s) = Inr (length s)"
| "py_len v = Inl TypeError"

text \<open>
  \<^verbatim>\<open>v[i]\<close> for an index \<^verbatim>\<open>i \<ge> 0\<close>. The keys of a dictionary are strings, so an integer
  is never one of them.
\<close>

fun py_getitem_nat :: "pyval \<Rightarrow> nat \<Rightarrow> error + pyval" where
  "py_getitem_nat (PList xs) i = (if i < length xs then Inr (xs ! i) else Inl IndexError)"
| "py_getitem_nat (PStr s) i = (if i < length s then Inr (PStr [s ! i]) else Inl IndexError)"
| "py_getitem_nat (PDict c kvs) i = Inl KeyError"
| "py_getitem_nat v i = Inl TypeError"

text \<open>
  \<^verbatim>\<open>d[k] = v\<close> on the items of a dictionary: a key already there keeps its place and
  takes the new value; \<^verbatim>\<open>dict(items)\<close> stores the pairs one after the other.
\<close>

fun dict_set :: "items \<Rightarrow> string \<Rightarrow> pyval \<Rightarrow> items" where
  "dict_set [] k v = [(k, v)]"
| "dict_set ((k', v') # rest) k v =
     (if k' = k then (k', v) # rest else (k', v') # dict_set rest k v)"

definition py_dict :: "items \<Rightarrow> items" where
  "py_dict its = foldl (\<lambda>d (k, v). dict_set d k v) [] its"

section \<open>Objects and \<open>get_attribute\<close>\<close>

text \<open>
  An attribute of an object is a data value or a bound method taking no argument, given
  by the value it returns. An object is the map from its attribute names.
\<close>

datatype attr = Data pyval | Method pyval

type_synonym pyobj = "string \<rightharpoonup> attr"

text \<open>\<^verbatim>\<open>getattr(obj, name, None)\<close>\<close>

definition getattr :: "pyobj \<Rightarrow> string \<Rightarrow> attr" where
  "getattr obj name = (case obj name of None \<Rightarrow> Data PNone | Some a \<Rightarrow> a)"

fun attr_truthy :: "attr \<Rightarrow> bool" where
  "attr_truthy (Data v) = truthy v"
| "attr_truthy (Method r) = True"

text \<open>Calling with no argument: a value that is not callable raises \<^verbatim>\<open>TypeError\<close>.\<close>

fun call :: "attr \<Rightarrow> error + attr" where
  "call (Method r) = Inr (Data r)"
| "call (Data v) = Inl TypeError"

definition get_attribute :: "pyobj \<Rightarrow> string \<Rightarrow> pyval \<Rightarrow> error + attr" where
  "get_attribute get_from prop_name default_value =
     (let prop = getattr get_from prop_name in
      ebind (if \<not> attr_truthy prop then
               (let prop_func = getattr get_from (''get_'' @ prop_name) in
                if attr_truthy prop_func then call prop_func else Inr prop)
             else Inr prop)
        (\<lambda>prop. Inr (if prop = Data PNone then Data default_value else prop)))"

section \<open>Styles\<close>

text \<open>
  A named style keeps, for each category set, the keyword arguments given to the
  constructor of the spreadsheet library (\<^verbatim>\<open>Font\<close>, \<^verbatim>\<open>PatternFill\<close>, \<^verbatim>\<open>Alignment\<close>,
  \<^verbatim>\<open>Side\<close>); what the library makes of them is outside the renderer. \<^verbatim>\<open>**value\<close> raises
  \<^verbatim>\<open>TypeError\<close> when \<^verbatim>\<open>value\<close> is not a mapping.
\<close>

record named_style =
  style_name :: string
  style_font :: "items option"
  style_fill :: "items option"
  style_alignment :: "items option"
  style_border_side :: "items option"

fun kwargs :: "pyval \<Rightarrow> error + items" where
  "kwargs (PDict c kvs) = Inr kvs"
| "kwargs v = Inl TypeError"

fun style_loop :: "items \<Rightarrow> named_style \<Rightarrow> error + named_style" where
  "style_loop [] style = Inr style"
| "style_loop ((key, value) # rest) style =
     (if key = ''font'' then
        ebind (kwargs value) (\<lambda>kw. style_loop rest (style\<lparr>style_font := Some kw\<rparr>))
      else if key = ''fill'' then
        ebind (kwargs value) (\<lambda>kw. style_loop rest (style\<lparr>style_fill := Some kw\<rparr>))
      else if key = ''alignment'' then
        ebind (kwargs value) (\<lambda>kw. style_loop rest (style\<lparr>style_alignment := Some kw\<rparr>))
      else if key = ''border_side'' then
        ebind (kwargs value) (\<lambda>kw. style_loop rest (style\<lparr>style_border_side := Some kw\<rparr>))
      else style_loop rest style)"

text \<open>\<^verbatim>\<open>NamedStyle(name=style_name)\<close>: the default, unstyled named style.\<close>

definition NamedStyle :: "string \<Rightarrow> named_style" where
  "NamedStyle name = \<lparr>style_name = name, style_font = None, style_fill = None,
                       style_alignment = None, style_border_side = None\<rparr>"

definition get_style_from_dict :: "pyval \<Rightarrow> string \<Rightarrow> error + named_style" where
  "get_style_from_dict style_dict name =
     (let style = NamedStyle name in
      if \<not> truthy style_dict then Inr style
      else (case style_dict of
              PDict c kvs \<Rightarrow> style_loop kvs style
            | _ \<Rightarrow> Inl AttributeError))"

section \<open>The row flattener\<close>

definition key_sep :: string where
  "key_sep = ''.''"

definition list_sep :: string where
  "list_sep = '', ''"

text \<open>\<^verbatim>\<open>new_key = f"{parent_key}{key_sep}{k}" if parent_key else k\<close>\<close>

definition make_key :: "string \<Rightarrow> string \<Rightarrow> string" where
  "make_key parent_key k = (if parent_key \<noteq> [] then parent_key @ key_sep @ k else k)"

text \<open>
  The loop of \<^verbatim>\<open>_flatten\<close> over the items of \<^verbatim>\<open>data\<close>, giving the list \<^verbatim>\<open>items\<close>;
  the nested call returns a dictionary, whose items extend the list.
\<close>

function flatten_items :: "items \<Rightarrow> string \<Rightarrow> items" where
  "flatten_items [] parent_key = []"
| "flatten_items ((k, v) # rest) parent_key =
     (let new_key = make_key parent_key k in
      (case v of
         PDict c kvs \<Rightarrow> py_dict (flatten_items kvs new_key)
       | PList xs \<Rightarrow>
           (if (case xs of [] \<Rightarrow> False | first # _ \<Rightarrow> is_iterable first)
            then [(new_key, PStr (json_dumps_django v))]
            else [(new_key, PStr (join list_sep (map py_str xs)))])
       | _ \<Rightarrow> [(new_key, v)])
      @ flatten_items rest parent_key)"
  by pat_completeness auto
termination
  by (relation "measure (\<lambda>(its, p). size_list (size_prod (\<lambda>k. 0) size) its)") auto

text \<open>\<^verbatim>\<open>_flatten(data, parent_key)\<close>: \<^verbatim>\<open>data.items()\<close> needs a mapping.\<close>

fun flatten :: "pyval \<Rightarrow> string \<Rightarrow> error + items" where
  "flatten (PDict c kvs) parent_key = Inr (py_dict (flatten_items kvs parent_key))"
| "flatten v parent_key = Inl AttributeError"

section \<open>The sheet\<close>

text \<open>
  A cell has the value it was given, a named style and, when the row carries
  \<^verbatim>\<open>row_color\<close>, the start colour given to the solid \<^verbatim>\<open>PatternFill\<close> that replaces the
  fill of the style. The sheet is written forwards only: \<^verbatim>\<open>append\<close> adds a row after the
  rows already there. What the spreadsheet library stores for a value or a colour it
  accepted (a string cut at 32767 characters, a colour of six digits with \<^verbatim>\<open>00\<close> in
  front), how it checks a title or an image source, and how it encodes the workbook into
  bytes, is outside the renderer.
\<close>

record cell =
  cell_value :: pyval
  cell_style :: named_style
  cell_fill :: "pyval option"

record worksheet =
  ws_title :: pyval
  ws_images :: "(pyval \<times> string) list"
  ws_rows :: "cell list list"

definition append :: "worksheet \<Rightarrow> cell list \<Rightarrow> worksheet" where
  "append ws row = ws\<lparr>ws_rows := ws_rows ws @ [row]\<rparr>"

datatype rendered = EmptyBytes | JsonText string | XlsxBytes worksheet

text \<open>The values of the cells of a rendered sheet, row by row.\<close>

fun cell_values :: "rendered \<Rightarrow> pyval list list" where
  "cell_values (XlsxBytes ws) = map (map cell_value) (ws_rows ws)"
| "cell_values r = []"

section \<open>The renderer\<close>

definition check_validatation_data :: "pyval \<Rightarrow> error + bool" where
  "check_validatation_data data =
     ebind (py_contains ''detail'' data) (\<lambda>found. if found then Inr False else Inr True)"

definition json_format_response :: "pyval \<Rightarrow> error + rendered" where
  "json_format_response response_data =
     ebind (json_dumps response_data) (\<lambda>text. Inr (JsonText text))"

text \<open>\<^verbatim>\<open>header.get(key, default)\<close> on what \<open>get_attribute\<close> returned.\<close>

fun attr_get :: "attr \<Rightarrow> string \<Rightarrow> pyval \<Rightarrow> error + pyval" where
  "attr_get (Data (PDict c kvs)) key d =
     Inr (case map_of kvs key of None \<Rightarrow> d | Some v \<Rightarrow> v)"
| "attr_get a key d = Inl AttributeError"

text \<open>\<^verbatim>\<open>renderer_context["view"]\<close>, with \<^verbatim>\<open>renderer_context=None\<close> the default.\<close>

definition context_view :: "(string \<rightharpoonup> pyobj) option \<Rightarrow> error + pyobj" where
  "context_view renderer_context =
     (case renderer_context of
        None \<Rightarrow> Inl TypeError
      | Some ctx \<Rightarrow> (case ctx ''view'' of None \<Rightarrow> Inl KeyError | Some view \<Rightarrow> Inr view))"

subsection \<open>The body rows\<close>

text \<open>
  The data of a record reaches two constructors of the spreadsheet library, and both
  reject some of it.

  \<^verbatim>\<open>PatternFill(fill_type="solid", start_color=color)\<close> keeps its default colour for
  \<^verbatim>\<open>None\<close>, makes a colour of a string, which must match
  \<^verbatim>\<open>^([A-Fa-f0-9]{8}|[A-Fa-f0-9]{6})$\<close> (the \<^verbatim>\<open>$\<close> also matches before a newline ending the
  string) or \<^verbatim>\<open>ValueError\<close> is raised, and raises \<^verbatim>\<open>TypeError\<close> on any other value. The
  result is the start colour as given.
\<close>

definition hex_digit :: "char \<Rightarrow> bool" where
  "hex_digit c = (c \<in> set ''0123456789abcdefABCDEF'')"

definition aRGB :: "string \<Rightarrow> bool" where
  "aRGB s =
     (let digits = (if s \<noteq> [] \<and> last s = CHR 0x0A then butlast s else s)
      in (length digits = 8 \<or> length digits = 6) \<and> list_all hex_digit digits)"

fun PatternFill :: "pyval \<Rightarrow> error + pyval" where
  "PatternFill PNone = Inr PNone"
| "PatternFill (PStr s) = (if aRGB s then Inr (PStr s) else Inl ValueError)"
| "PatternFill v = Inl TypeError"

text \<open>
  \<^verbatim>\<open>WriteOnlyCell(ws, value=value)\<close> binds \<^verbatim>\<open>None\<close>, a boolean, a number or a string, and
  raises \<^verbatim>\<open>ValueError\<close> on a value of another type. A string is cut at 32767 characters
  and what is left must hold no control character other than tab, newline and carriage
  return, or \<^verbatim>\<open>IllegalCharacterError\<close> is raised. The result is the value as given.
\<close>

definition illegal_char :: "char \<Rightarrow> bool" where
  "illegal_char c = (let n = (of_char c :: nat) in
     n \<le> 8 \<or> (11 \<le> n \<and> n \<le> 12) \<or> (14 \<le> n \<and> n \<le> 31))"

fun WriteOnlyCell :: "pyval \<Rightarrow> error + pyval" where
  "WriteOnlyCell PNone = Inr PNone"
| "WriteOnlyCell (PBool b) = Inr (PBool b)"
| "WriteOnlyCell (PInt i) = Inr (PInt i)"
| "WriteOnlyCell (PStr s) =
     (if list_ex illegal_char (take 32767 s) then Inl IllegalCharacterError else Inr (PStr s))"
| "WriteOnlyCell v = Inl ValueError"

text \<open>The loop of \<^verbatim>\<open>_make_body\<close> over the items of the flattened row.\<close>

fun body_loop ::
  "items \<Rightarrow> named_style \<Rightarrow> pyval option \<Rightarrow> cell list \<Rightarrow> error + cell list" where
  "body_loop [] body_style fill data_row = Inr data_row"
| "body_loop ((column_name, value) # rest) body_style fill data_row =
     (if column_name = ''row_color'' then body_loop rest body_style fill data_row
      else
        ebind (WriteOnlyCell value) (\<lambda>bound.
        body_loop rest body_style fill
          (data_row @ [\<lparr>cell_value = bound, cell_style = body_style, cell_fill = fill\<rparr>])))"

definition make_body :: "worksheet \<Rightarrow> named_style \<Rightarrow> pyval \<Rightarrow> error + worksheet" where
  "make_body ws body_style row =
     ebind (flatten row []) (\<lambda>flatten_row.
     ebind (py_contains ''row_color'' row) (\<lambda>has_color.
     ebind (if has_color
            then ebind (py_getitem_str row ''row_color'') (\<lambda>color.
                 ebind (PatternFill color) (\<lambda>start_color. Inr (Some start_color)))
            else Inr None) (\<lambda>fill.
     ebind (body_loop flatten_row body_style fill []) (\<lambda>data_row.
     Inr (append ws data_row)))))"

text \<open>\<^verbatim>\<open>for row in results: self._make_body(row)\<close>\<close>

fun make_body_rows :: "worksheet \<Rightarrow> named_style \<Rightarrow> pyval list \<Rightarrow> error + worksheet" where
  "make_body_rows ws body_style [] = Inr ws"
| "make_body_rows ws body_style (row # rest) =
     ebind (make_body ws body_style row) (\<lambda>ws'. make_body_rows ws' body_style rest)"

text \<open>Lines 150 to 154: a \<^verbatim>\<open>ReturnDict\<close> gives one body row, a list one row per element.\<close>

fun make_all_body :: "worksheet \<Rightarrow> named_style \<Rightarrow> pyval \<Rightarrow> error + worksheet" where
  "make_all_body ws body_style (PDict ReturnDict kvs) =
     make_body ws body_style (PDict ReturnDict kvs)"
| "make_all_body ws body_style (PList rows) = make_body_rows ws body_style rows"
| "make_all_body ws body_style results = Inr ws"

subsection \<open>The column-header row\<close>

text \<open>
  Lines 126 to 129: the keys the column names are pulled from. Neither test holding
  leaves \<^verbatim>\<open>column_names_first_row\<close> unbound.
\<close>

fun column_names_first_row :: "pyval \<Rightarrow> error + string list" where
  "column_names_first_row (PDict c kvs) = Inr (map fst kvs)"
| "column_names_first_row (PList []) = Inl IndexError"
| "column_names_first_row (PList (first # rest)) =
     ebind (flatten first []) (\<lambda>flat. Inr (map fst flat))"
| "column_names_first_row results = Inl UnboundLocalError"

text \<open>
  The loop of lines 132 to 144, with \<^verbatim>\<open>column_count\<close> and \<^verbatim>\<open>column_header_row\<close>: the
  choice of the display name of each column. A cell of this row records the display name
  it was given; the conversion of a display name by the spreadsheet library is not
  modelled here.
\<close>

fun column_header_loop ::
  "pyval \<Rightarrow> named_style \<Rightarrow> string list \<Rightarrow> nat \<Rightarrow> cell list \<Rightarrow> error + (nat \<times> cell list)" where
  "column_header_loop column_titles style [] column_count column_header_row =
     Inr (column_count, column_header_row)"
| "column_header_loop column_titles style (column_name # rest) column_count column_header_row =
     (if column_name = ''row_color''
      then column_header_loop column_titles style rest column_count column_header_row
      else
        (let column_count = column_count + 1 in
         ebind (py_len column_titles) (\<lambda>n.
         ebind (if column_count > n then Inr (PStr column_name)
                else py_getitem_nat column_titles (column_count - 1)) (\<lambda>column_name_display.
         column_header_loop column_titles style rest column_count
           (column_header_row @
              [\<lparr>cell_value = column_name_display, cell_style = style, cell_fill = None\<rparr>])))))"

text \<open>Lines 125 to 146: no column-header row at all when \<^verbatim>\<open>results\<close> is empty.\<close>

definition make_column_headers ::
  "worksheet \<Rightarrow> pyval \<Rightarrow> named_style \<Rightarrow> pyval \<Rightarrow> error + worksheet" where
  "make_column_headers ws column_titles column_header_style results =
     ebind (py_len results) (\<lambda>n.
       if n \<noteq> 0 then
         ebind (column_names_first_row results) (\<lambda>names.
         ebind (column_header_loop column_titles column_header_style names 0 []) (\<lambda>(column_count, column_header_row).
         Inr (append ws column_header_row)))
       else Inr ws)"

subsection \<open>\<open>render\<close>\<close>

text \<open>Lines 98 to 156, once the three configuration sections are read.\<close>

definition render_sheet :: "attr \<Rightarrow> attr \<Rightarrow> attr \<Rightarrow> pyval \<Rightarrow> error + rendered" where
  "render_sheet header column_header body results =
     ebind (attr_get header ''style'' PNone) (\<lambda>header_style_dict.
     ebind (get_style_from_dict header_style_dict ''header_style'') (\<lambda>header_style.
     ebind (attr_get column_header ''style'' PNone) (\<lambda>column_header_style_dict.
     ebind (get_style_from_dict column_header_style_dict ''column_header_style'') (\<lambda>column_header_style.
     ebind (attr_get body ''style'' PNone) (\<lambda>body_style_dict.
     ebind (get_style_from_dict body_style_dict ''body_style'') (\<lambda>body_style.
     ebind (attr_get header ''img'' PNone) (\<lambda>img_addr.
     ebind (attr_get header ''tab_title'' (PStr ''Report'')) (\<lambda>tab_title.
     ebind (attr_get header ''header_title'' (PStr ''Report'')) (\<lambda>header_title.
     (let ws = \<lparr>ws_title = tab_title,
                ws_images = (if truthy img_addr then [(img_addr, ''A1'')] else []),
                ws_rows = []\<rparr>;
          ws = (if attr_truthy header
                then append ws [\<lparr>cell_value = header_title, cell_style = header_style,
                                  cell_fill = None\<rparr>]
                else ws)
      in
     ebind (attr_get column_header ''titles'' (PList [])) (\<lambda>column_titles.
     ebind (make_column_headers ws column_titles column_header_style results) (\<lambda>ws.
     ebind (make_all_body ws body_style results) (\<lambda>ws.
     Inr (XlsxBytes ws))))))))))))))"

definition render :: "pyval \<Rightarrow> (string \<rightharpoonup> pyobj) option \<Rightarrow> error + rendered" where
  "render data renderer_context =
     ebind (check_validatation_data data) (\<lambda>valid.
       if \<not> valid then json_format_response data
       else if data = PNone then Inr EmptyBytes
       else
         ebind (py_contains ''results'' data) (\<lambda>has_results.
         ebind (if has_results then py_getitem_str data ''results'' else Inr data) (\<lambda>results.
         ebind (context_view renderer_context) (\<lambda>view.
         ebind (get_attribute view ''xlsx_header'' (PDict Dict [])) (\<lambda>header.
         ebind (get_attribute view ''xlsx_column_header'' (PDict Dict [])) (\<lambda>column_header.
         ebind (get_attribute view ''xlsx_body'' (PDict Dict [])) (\<lambda>body.
         render_sheet header column_header body results)))))))"

section \<open>Auxiliary facts\<close>

lemma ebind_Inl [simp]: "ebind (Inl e) f = Inl e"
  by (simp add: ebind_def)

lemma ebind_Inr [simp]: "ebind (Inr x) f = f x"
  by (simp add: ebind_def)

lemma ebind_eq_Inr: "ebind m f = Inr y \<longleftrightarrow> (\<exists>x. m = Inr x \<and> f x = Inr y)"
  by (cases m) simp_all

lemma flatten_items_append:
  "flatten_items (xs @ ys) parent_key = flatten_items xs parent_key @ flatten_items ys parent_key"
proof (induction xs)
  case Nil
  show ?case by simp
next
  case (Cons kv xs)
  obtain k v where kv: "kv = (k, v)" by (cases kv)
  show ?case unfolding kv using Cons.IH
    by (simp add: Let_def split: pyval.splits)
qed

lemma PatternFill_Inr: "PatternFill color = Inr start_color \<Longrightarrow> start_color = color"
  by (cases color) (simp_all split: if_splits)

lemma WriteOnlyCell_Inr: "WriteOnlyCell v = Inr bound \<Longrightarrow> bound = v"
  by (cases v) (simp_all split: if_splits)

lemma body_loop_Inr:
  "body_loop its st fill acc = Inr data_row \<Longrightarrow>
     data_row = acc @ map (\<lambda>(k, v). \<lparr>cell_value = v, cell_style = st, cell_fill = fill\<rparr>)
                      (filter (\<lambda>(k, v). k \<noteq> ''row_color'') its)"
proof (induction its st fill acc rule: body_loop.induct)
  case (1 body_style fill data_row)
  then show ?case by simp
next
  case (2 column_name "value" rest body_style fill data_row')
  show ?case
  proof (cases "column_name = ''row_color''")
    case True
    with 2 show ?thesis by simp
  next
    case False
    with "2.prems" obtain bound where
      bound: "WriteOnlyCell value = Inr bound" and
      rec: "body_loop rest body_style fill
              (data_row' @ [\<lparr>cell_value = bound, cell_style = body_style, cell_fill = fill\<rparr>]) =
            Inr data_row"
      by (auto simp add: ebind_eq_Inr)
    from "2.IH"(2) [OF False rec] WriteOnlyCell_Inr [OF bound] False show ?thesis by simp
  qed
qed

lemma make_body_dict:
  "make_body ws st (PDict c kvs) = Inr ws' \<Longrightarrow>
   ws' = append ws
       (map (\<lambda>(k, v). \<lparr>cell_value = v, cell_style = st, cell_fill = map_of kvs ''row_color''\<rparr>)
          (filter (\<lambda>(k, v). k \<noteq> ''row_color'') (py_dict (flatten_items kvs []))))"
proof (cases "map_of kvs ''row_color''")
  case None
  assume ok: "make_body ws st (PDict c kvs) = Inr ws'"
  from None have "''row_color'' \<notin> fst ` set kvs" by (simp add: map_of_eq_None_iff)
  with ok obtain data_row where
    "body_loop (py_dict (flatten_items kvs [])) st None [] = Inr data_row"
    "ws' = append ws data_row"
    by (auto simp add: make_body_def ebind_eq_Inr)
  with None body_loop_Inr [OF this(1)] show ?thesis by simp
next
  case (Some color)
  assume ok: "make_body ws st (PDict c kvs) = Inr ws'"
  from Some have "''row_color'' \<in> fst ` set kvs" by (metis map_of_eq_None_iff option.distinct(1))
  with ok Some obtain data_row start_color where
    "PatternFill color = Inr start_color"
    "body_loop (py_dict (flatten_items kvs [])) st (Some start_color) [] = Inr data_row"
    "ws' = append ws data_row"
    by (auto simp add: make_body_def ebind_eq_Inr)
  with Some body_loop_Inr [OF this(2)] PatternFill_Inr [OF this(1)] show ?thesis by simp
qed

lemma make_body_Inr:
  "make_body ws st row = Inr ws' \<Longrightarrow> \<exists>c kvs. row = PDict c kvs"
  by (cases row) (simp_all add: make_body_def)


lemma column_header_loop_cells:
  "column_header_loop titles st names n row = Inr (n', row') \<Longrightarrow>
   \<exists>cells. row' = row @ cells \<and> n' = n + length cells \<and>
     list_all2 (\<lambda>(i, name) cell. cell_value cell = PStr name \<or>
                  py_getitem_nat titles i = Inr (cell_value cell))
       (enumerate n (filter (\<lambda>name. name \<noteq> ''row_color'') names)) cells"
proof (induction names arbitrary: n row)
  case Nil
  then show ?case by simp
next
  case (Cons name rest)
  show ?case
  proof (cases "name = ''row_color''")
    case True
    with Cons.prems have "column_header_loop titles st rest n row = Inr (n', row')" by simp
    from Cons.IH [OF this] True show ?thesis by simp
  next
    case False
    with Cons.prems obtain m display where
      len: "py_len titles = Inr m" and
      disp: "(if Suc n > m then Inr (PStr name)
              else py_getitem_nat titles (Suc n - 1)) = Inr display" and
      rec: "column_header_loop titles st rest (Suc n)
              (row @ [\<lparr>cell_value = display, cell_style = st, cell_fill = None\<rparr>]) = Inr (n', row')"
      by (auto simp add: Let_def ebind_eq_Inr)
    from Cons.IH [OF rec] obtain cells where
      cells: "row' = (row @ [\<lparr>cell_value = display, cell_style = st, cell_fill = None\<rparr>]) @ cells"
        "n' = Suc n + length cells"
        "list_all2 (\<lambda>(i, name) cell. cell_value cell = PStr name \<or>
                      py_getitem_nat titles i = Inr (cell_value cell))
           (enumerate (Suc n) (filter (\<lambda>name. name \<noteq> ''row_color'') rest)) cells"
      by blast
    from disp have "display = PStr name \<or> py_getitem_nat titles n = Inr display"
      by (auto split: if_splits)
    with cells False show ?thesis
      by (intro exI [of _ "\<lparr>cell_value = display, cell_style = st, cell_fill = None\<rparr> # cells"])
        simp
  qed
qed

lemma make_body_rows_rows:
  "make_body_rows ws st rows = Inr ws' \<Longrightarrow>
   \<exists>rs. ws_rows ws' = ws_rows ws @ rs \<and>
     list_all2 (\<lambda>row r. \<exists>c kvs. row = PDict c kvs \<and>
        r = map (\<lambda>(k, v). \<lparr>cell_value = v, cell_style = st,
                           cell_fill = map_of kvs ''row_color''\<rparr>)
              (filter (\<lambda>(k, v). k \<noteq> ''row_color'') (py_dict (flatten_items kvs [])))) rows rs"
proof (induction rows arbitrary: ws)
  case Nil
  then show ?case by simp
next
  case (Cons row rest)
  from Cons.prems obtain ws1 where
    one: "make_body ws st row = Inr ws1" and rec: "make_body_rows ws1 st rest = Inr ws'"
    by (auto simp add: ebind_eq_Inr)
  from make_body_Inr [OF one] obtain c kvs where row: "row = PDict c kvs" by blast
  define r where
    "r = map (\<lambda>(k, v). \<lparr>cell_value = v, cell_style = st, cell_fill = map_of kvs ''row_color''\<rparr>)
           (filter (\<lambda>(k, v). k \<noteq> ''row_color'') (py_dict (flatten_items kvs [])))"
  from one row have "ws1 = append ws r"
    using make_body_dict [of ws st c kvs ws1] by (simp add: r_def)
  then have ws1: "ws_rows ws1 = ws_rows ws @ [r]"
    by (simp add: append_def)
  from Cons.IH [OF rec] obtain rs where
    rs: "ws_rows ws' = ws_rows ws1 @ rs"
      "list_all2 (\<lambda>row r. \<exists>c kvs. row = PDict c kvs \<and>
        r = map (\<lambda>(k, v). \<lparr>cell_value = v, cell_style = st,
                           cell_fill = map_of kvs ''row_color''\<rparr>)
              (filter (\<lambda>(k, v). k \<noteq> ''row_color'') (py_dict (flatten_items kvs [])))) rest rs"
    by blast
  from rs ws1 row show ?case
    by (intro exI [of _ "r # rs"]) (simp add: r_def)
qed

text \<open>The definitions a concrete call is evaluated with.\<close>

lemmas eval_defs = render_def check_validatation_data_def json_format_response_def
  context_view_def get_attribute_def getattr_def render_sheet_def get_style_from_dict_def
  NamedStyle_def make_column_headers_def append_def make_body_def json_dumps_def py_dict_def
  make_key_def key_sep_def list_sep_def json_dumps_django_def json_str_def
  json_escape_char_def py_str_def str_int_def str_nat.simps digit_char_def repr_str_def
  repr_char_def printable_def aRGB_def hex_digit_def illegal_char_def Let_def

section \<open>The input classifier\<close>

text \<open>
  C1. For the payload \<^verbatim>\<open>None\<close> the spec has \<open>render\<close> return an empty byte sequence.
  The code tests \<^verbatim>\<open>"detail" in data\<close> first, which raises \<^verbatim>\<open>TypeError\<close> on \<^verbatim>\<open>None\<close>,
  so the branch \<^verbatim>\<open>if data is None: return bytes()\<close> that follows is never reached:
  \<open>render\<close> raises, whatever the renderer context.
\<close>

theorem render_none_raises: "render PNone renderer_context = Inl TypeError"
  by (simp add: render_def check_validatation_data_def)

text \<open>
  C2, as amended. For a payload mapping that contains the key \<^verbatim>\<open>detail\<close>, no sheet is
  built: \<open>render\<close> hands the payload to \<^verbatim>\<open>json.dumps\<close> with the default encoder. It
  returns the JSON text when the default encoder can serialise the payload, and raises
  \<^verbatim>\<open>TypeError\<close> when the payload holds a value the default encoder rejects.
\<close>

theorem render_detail_json:
  "''detail'' \<in> set (map fst kvs) \<Longrightarrow>
   render (PDict c kvs) renderer_context =
     (if json_native (PDict c kvs) then Inr (JsonText (json_text (PDict c kvs)))
      else Inl TypeError)"
  by (simp add: render_def check_validatation_data_def json_format_response_def json_dumps_def)

text \<open>The payload \<^verbatim>\<open>{"detail": "not found"}\<close> is rendered as that JSON text.\<close>

theorem render_detail_json_witness:
  "''detail'' \<in> set (map fst [(''detail'', PStr ''not found'')]) \<and>
   render (PDict Dict [(''detail'', PStr ''not found'')]) None =
     Inr (JsonText (''{'' @ [CHR 0x22] @ ''detail'' @ [CHR 0x22] @ '': '' @
                    [CHR 0x22] @ ''not found'' @ [CHR 0x22] @ ''}''))"
  using render_detail_json [of "[(''detail'', PStr ''not found'')]" Dict None]
  by (simp add: json_str_def json_escape_char_def)

text \<open>
  C2 as stated fails: a payload with the key \<^verbatim>\<open>detail\<close> bound to a \<^verbatim>\<open>UUID\<close> makes
  \<open>render\<close> raise \<^verbatim>\<open>TypeError\<close>.
\<close>

theorem render_detail_uuid_raises:
  "render (PDict Dict [(''detail'', PUUID ''12345678-1234-5678-1234-567812345678'')]) None =
     Inl TypeError"
  by (simp add: eval_defs)

section \<open>A single record as \<open>results\<close>\<close>

lemma return_dict_one_body_row:
  "make_all_body ws st (PDict ReturnDict kvs) = Inr ws' \<Longrightarrow>
   ws' = append ws
       (map (\<lambda>(k, v). \<lparr>cell_value = v, cell_style = st, cell_fill = map_of kvs ''row_color''\<rparr>)
          (filter (\<lambda>(k, v). k \<noteq> ''row_color'') (py_dict (flatten_items kvs []))))"
  by (simp add: make_body_dict)

lemma return_dict_one_body_row_example:
  "ebind (render (PDict ReturnDict [(''id'', PInt 1)])
            (Some (Map.empty(''view'' \<mapsto> Map.empty))))
     (\<lambda>r. Inr (cell_values r)) = Inr [[PStr ''id''], [PInt 1]]"
  by (simp add: eval_defs)

lemma plain_dict_no_body_row: "make_all_body ws st (PDict Dict kvs) = Inr ws"
  by simp

text \<open>
  C3. For \<open>results\<close> a single non-empty mapping the spec has exactly one body row. The
  column names are pulled from a \<^verbatim>\<open>ReturnDict\<close> or a \<^verbatim>\<open>dict\<close>, but the body is made for a
  \<^verbatim>\<open>ReturnDict\<close> only: the plain dictionary \<^verbatim>\<open>{"id": 1}\<close> is rendered as a sheet with its
  column-header row and no body row.
\<close>

theorem render_plain_dict_no_body:
  "render (PDict Dict [(''id'', PInt 1)]) (Some (Map.empty(''view'' \<mapsto> Map.empty))) =
     Inr (XlsxBytes
       \<lparr>ws_title = PStr ''Report'', ws_images = [],
        ws_rows = [[\<lparr>cell_value = PStr ''id'', cell_style = NamedStyle ''column_header_style'',
                     cell_fill = None\<rparr>]]\<rparr>)"
  by (simp add: eval_defs)

text \<open>
  C4. For \<open>results\<close> a single record the spec has the flattened keys of the record as
  column keys. The code takes the record itself, so its top-level keys: the record
  \<^verbatim>\<open>{"a": {"b": 1}}\<close> has the column key \<^verbatim>\<open>a\<close>, while its flattened key, which the body
  row follows, is \<^verbatim>\<open>a.b\<close>.
\<close>

theorem single_record_top_level_keys:
  "column_names_first_row (PDict ReturnDict [(''a'', PDict Dict [(''b'', PInt 1)])]) = Inr [''a''] \<and>
   flatten (PDict ReturnDict [(''a'', PDict Dict [(''b'', PInt 1)])]) [] = Inr [(''a.b'', PInt 1)] \<and>
   ebind (render (PDict ReturnDict [(''a'', PDict Dict [(''b'', PInt 1)])])
            (Some (Map.empty(''view'' \<mapsto> Map.empty))))
     (\<lambda>r. Inr (cell_values r)) = Inr [[PStr ''a''], [PInt 1]]"
  by (simp add: eval_defs)

section \<open>The rows of a list of records\<close>

text \<open>
  C5, as amended. For a list \<open>results\<close>, one body row is appended per record, in order, and
  the row of a record holds one cell per non-reserved flattened key of that record itself,
  in the order of its own flattening; only the column names are pulled from the first
  record. A key that a later record has and the first record lacks still gets a cell, and
  a key that a later record lacks gets none.
\<close>

theorem body_row_own_keys:
  "make_all_body ws body_style (PList rows) = Inr ws' \<Longrightarrow>
     length (ws_rows ws') = length (ws_rows ws) + length rows \<and>
     (\<forall>i<length rows. \<exists>c kvs. rows ! i = PDict c kvs \<and>
         ws_rows ws' ! (length (ws_rows ws) + i) =
           map (\<lambda>(k, v). \<lparr>cell_value = v, cell_style = body_style,
                            cell_fill = map_of kvs ''row_color''\<rparr>)
             (filter (\<lambda>(k, v). k \<noteq> ''row_color'') (py_dict (flatten_items kvs [])))) \<and>
     (\<forall>c kvs rest. rows = PDict c kvs # rest \<longrightarrow>
         column_names_first_row (PList rows) = Inr (map fst (py_dict (flatten_items kvs []))))"
proof -
  assume "make_all_body ws body_style (PList rows) = Inr ws'"
  then have "make_body_rows ws body_style rows = Inr ws'" by simp
  from make_body_rows_rows [OF this] obtain rs where
    rs: "ws_rows ws' = ws_rows ws @ rs"
      "list_all2 (\<lambda>row r. \<exists>c kvs. row = PDict c kvs \<and>
        r = map (\<lambda>(k, v). \<lparr>cell_value = v, cell_style = body_style,
                           cell_fill = map_of kvs ''row_color''\<rparr>)
              (filter (\<lambda>(k, v). k \<noteq> ''row_color'') (py_dict (flatten_items kvs [])))) rows rs"
    by blast
  from rs(2) have len: "length rs = length rows" by (simp add: list_all2_lengthD)
  have "\<forall>i<length rows. \<exists>c kvs. rows ! i = PDict c kvs \<and>
         ws_rows ws' ! (length (ws_rows ws) + i) =
           map (\<lambda>(k, v). \<lparr>cell_value = v, cell_style = body_style,
                            cell_fill = map_of kvs ''row_color''\<rparr>)
             (filter (\<lambda>(k, v). k \<noteq> ''row_color'') (py_dict (flatten_items kvs [])))"
    using rs by (simp add: list_all2_conv_all_nth)
  moreover have "\<forall>c kvs rest. rows = PDict c kvs # rest \<longrightarrow>
         column_names_first_row (PList rows) = Inr (map fst (py_dict (flatten_items kvs [])))"
    by simp
  ultimately show ?thesis using rs(1) len by simp
qed

text \<open>Two records with the same keys, the second with a row colour.\<close>

theorem body_row_own_keys_witness:
  "make_all_body \<lparr>ws_title = PStr ''Report'', ws_images = [], ws_rows = []\<rparr>
     (NamedStyle ''body_style'')
     (PList [PDict Dict [(''id'', PInt 1), (''name'', PStr ''x'')],
             PDict Dict [(''id'', PInt 2), (''row_color'', PStr ''FFFF0000''),
                         (''name'', PStr ''y'')]]) =
   Inr \<lparr>ws_title = PStr ''Report'', ws_images = [],
        ws_rows =
          [[\<lparr>cell_value = PInt 1, cell_style = NamedStyle ''body_style'', cell_fill = None\<rparr>,
            \<lparr>cell_value = PStr ''x'', cell_style = NamedStyle ''body_style'', cell_fill = None\<rparr>],
           [\<lparr>cell_value = PInt 2, cell_style = NamedStyle ''body_style'',
             cell_fill = Some (PStr ''FFFF0000'')\<rparr>,
            \<lparr>cell_value = PStr ''y'', cell_style = NamedStyle ''body_style'',
             cell_fill = Some (PStr ''FFFF0000'')\<rparr>]]\<rparr> \<and>
   column_names_first_row
     (PList [PDict Dict [(''id'', PInt 1), (''name'', PStr ''x'')],
             PDict Dict [(''id'', PInt 2), (''row_color'', PStr ''FFFF0000''),
                         (''name'', PStr ''y'')]]) = Inr [''id'', ''name'']"
  using body_row_own_keys [of "\<lparr>ws_title = PStr ''Report'', ws_images = [], ws_rows = []\<rparr>"
      "NamedStyle ''body_style''"
      "[PDict Dict [(''id'', PInt 1), (''name'', PStr ''x'')],
        PDict Dict [(''id'', PInt 2), (''row_color'', PStr ''FFFF0000''), (''name'', PStr ''y'')]]"
      "\<lparr>ws_title = PStr ''Report'', ws_images = [],
        ws_rows =
          [[\<lparr>cell_value = PInt 1, cell_style = NamedStyle ''body_style'', cell_fill = None\<rparr>,
            \<lparr>cell_value = PStr ''x'', cell_style = NamedStyle ''body_style'', cell_fill = None\<rparr>],
           [\<lparr>cell_value = PInt 2, cell_style = NamedStyle ''body_style'',
             cell_fill = Some (PStr ''FFFF0000'')\<rparr>,
            \<lparr>cell_value = PStr ''y'', cell_style = NamedStyle ''body_style'',
             cell_fill = Some (PStr ''FFFF0000'')\<rparr>]]\<rparr>"]
  by (simp add: eval_defs)

text \<open>
  C5 as stated fails: with the records \<^verbatim>\<open>{"a": 1}\<close> and \<^verbatim>\<open>{"a": 2, "b": 3}\<close> the one
  column discovered is \<^verbatim>\<open>a\<close>, and the second body row has two cells.
\<close>

theorem later_record_extra_key_shown:
  "ebind (render (PList [PDict Dict [(''a'', PInt 1)],
                         PDict Dict [(''a'', PInt 2), (''b'', PInt 3)]])
            (Some (Map.empty(''view'' \<mapsto> Map.empty))))
     (\<lambda>r. Inr (cell_values r)) = Inr [[PStr ''a''], [PInt 1], [PInt 2, PInt 3]]"
  by (simp add: eval_defs)

section \<open>The reserved key \<open>row_color\<close>\<close>

text \<open>
  C6, as amended. The column-header row has one cell per column name other than
  \<^verbatim>\<open>row_color\<close>, in order, each showing that name or the title overriding it. Whenever
  \<open>_make_body\<close> returns for a record, it has appended one row, which has the values of
  the flattened entries whose key is not \<^verbatim>\<open>row_color\<close>, in order, and every cell of the
  row has the fill the record gives under \<^verbatim>\<open>row_color\<close>: that value when the key is
  present, no fill of its own otherwise. It returns only for a colour the spreadsheet
  library accepts: a value \<^verbatim>\<open>PatternFill\<close> rejects is raised as its error and no row
  is appended.
\<close>

theorem row_color_reserved:
  "(column_header_loop column_titles style names 0 [] = Inr (n, header_row) \<longrightarrow>
      (let cols = filter (\<lambda>name. name \<noteq> ''row_color'') names in
         ''row_color'' \<notin> set cols \<and> length header_row = length cols \<and>
         (\<forall>i<length cols. cell_value (header_row ! i) = PStr (cols ! i) \<or>
              py_getitem_nat column_titles i = Inr (cell_value (header_row ! i))))) \<and>
   (make_body ws body_style (PDict c kvs) = Inr ws' \<longrightarrow>
      (\<exists>data_row. ws' = append ws data_row \<and>
         map cell_value data_row =
           map snd (filter (\<lambda>(k, v). k \<noteq> ''row_color'') (py_dict (flatten_items kvs []))) \<and>
         (\<forall>cell \<in> set data_row. cell_fill cell = map_of kvs ''row_color'') \<and>
         (\<forall>color. map_of kvs ''row_color'' = Some color \<longrightarrow> PatternFill color = Inr color))) \<and>
   (\<forall>color e. map_of kvs ''row_color'' = Some color \<and> PatternFill color = Inl e \<longrightarrow>
      make_body ws body_style (PDict c kvs) = Inl e)"
proof (intro conjI impI allI)
  assume "column_header_loop column_titles style names 0 [] = Inr (n, header_row)"
  from column_header_loop_cells [OF this] have
    "list_all2 (\<lambda>(i, name) cell. cell_value cell = PStr name \<or>
         py_getitem_nat column_titles i = Inr (cell_value cell))
       (enumerate 0 (filter (\<lambda>name. name \<noteq> ''row_color'') names)) header_row"
    by simp
  then show "let cols = filter (\<lambda>name. name \<noteq> ''row_color'') names in
         ''row_color'' \<notin> set cols \<and> length header_row = length cols \<and>
         (\<forall>i<length cols. cell_value (header_row ! i) = PStr (cols ! i) \<or>
              py_getitem_nat column_titles i = Inr (cell_value (header_row ! i)))"
    by (auto simp add: Let_def list_all2_conv_all_nth nth_enumerate_eq)
next
  assume ok: "make_body ws body_style (PDict c kvs) = Inr ws'"
  have accepted: "\<forall>color. map_of kvs ''row_color'' = Some color \<longrightarrow> PatternFill color = Inr color"
  proof (intro allI impI)
    fix color
    assume color: "map_of kvs ''row_color'' = Some color"
    then have "''row_color'' \<in> fst ` set kvs" by (metis map_of_eq_None_iff option.distinct(1))
    with ok color obtain start_color where "PatternFill color = Inr start_color"
      by (auto simp add: make_body_def ebind_eq_Inr)
    with PatternFill_Inr [OF this] show "PatternFill color = Inr color" by simp
  qed
  show "\<exists>data_row. ws' = append ws data_row \<and>
         map cell_value data_row =
           map snd (filter (\<lambda>(k, v). k \<noteq> ''row_color'') (py_dict (flatten_items kvs []))) \<and>
         (\<forall>cell \<in> set data_row. cell_fill cell = map_of kvs ''row_color'') \<and>
         (\<forall>color. map_of kvs ''row_color'' = Some color \<longrightarrow> PatternFill color = Inr color)"
  proof (intro exI conjI)
    show "ws' = append ws (map (\<lambda>(k, v). \<lparr>cell_value = v, cell_style = body_style,
                                         cell_fill = map_of kvs ''row_color''\<rparr>)
          (filter (\<lambda>(k, v). k \<noteq> ''row_color'') (py_dict (flatten_items kvs []))))"
      by (rule make_body_dict [OF ok])
  qed (use accepted in \<open>auto simp add: split_def\<close>)
next
  fix color e
  assume rejected: "map_of kvs ''row_color'' = Some color \<and> PatternFill color = Inl e"
  then have "''row_color'' \<in> fst ` set kvs" by (metis map_of_eq_None_iff option.distinct(1))
  with rejected show "make_body ws body_style (PDict c kvs) = Inl e"
    by (simp add: make_body_def)
qed

text \<open>A record with a row colour, and the names of its columns.\<close>

theorem row_color_reserved_witness:
  "column_header_loop (PList []) (NamedStyle ''column_header_style'')
       [''row_color'', ''id'', ''name''] 0 [] =
     Inr (2, [\<lparr>cell_value = PStr ''id'', cell_style = NamedStyle ''column_header_style'',
               cell_fill = None\<rparr>,
              \<lparr>cell_value = PStr ''name'', cell_style = NamedStyle ''column_header_style'',
               cell_fill = None\<rparr>]) \<and>
   make_body \<lparr>ws_title = PStr ''Report'', ws_images = [], ws_rows = []\<rparr>
       (NamedStyle ''body_style'')
       (PDict Dict [(''row_color'', PStr ''FFFF0000''), (''id'', PInt 1), (''name'', PStr ''x'')]) =
     Inr \<lparr>ws_title = PStr ''Report'', ws_images = [],
          ws_rows = [[\<lparr>cell_value = PInt 1, cell_style = NamedStyle ''body_style'',
                       cell_fill = Some (PStr ''FFFF0000'')\<rparr>,
                      \<lparr>cell_value = PStr ''x'', cell_style = NamedStyle ''body_style'',
                       cell_fill = Some (PStr ''FFFF0000'')\<rparr>]]\<rparr> \<and>
   PatternFill (PStr ''FFFF0000'') = Inr (PStr ''FFFF0000'')"
  using row_color_reserved [of "PList []" "NamedStyle ''column_header_style''"
      "[''row_color'', ''id'', ''name'']" 2
      "[\<lparr>cell_value = PStr ''id'', cell_style = NamedStyle ''column_header_style'',
               cell_fill = None\<rparr>,
              \<lparr>cell_value = PStr ''name'', cell_style = NamedStyle ''column_header_style'',
               cell_fill = None\<rparr>]"
      "\<lparr>ws_title = PStr ''Report'', ws_images = [], ws_rows = []\<rparr>"
      "NamedStyle ''body_style''" Dict
      "[(''row_color'', PStr ''FFFF0000''), (''id'', PInt 1), (''name'', PStr ''x'')]"
      "\<lparr>ws_title = PStr ''Report'', ws_images = [],
          ws_rows = [[\<lparr>cell_value = PInt 1, cell_style = NamedStyle ''body_style'',
                       cell_fill = Some (PStr ''FFFF0000'')\<rparr>,
                      \<lparr>cell_value = PStr ''x'', cell_style = NamedStyle ''body_style'',
                       cell_fill = Some (PStr ''FFFF0000'')\<rparr>]]\<rparr>"]
  by (simp add: eval_defs)

text \<open>
  C6 as stated fails: a record with \<^verbatim>\<open>row_color\<close> bound to \<^verbatim>\<open>"red"\<close>, which is not a colour
  of six or eight hexadecimal digits, gets no fill and no row: \<^verbatim>\<open>PatternFill\<close> raises
  \<^verbatim>\<open>ValueError\<close>, in \<open>_make_body\<close> and so in \<open>render\<close>.
\<close>

theorem row_color_rejected_raises:
  "make_body \<lparr>ws_title = PStr ''Report'', ws_images = [], ws_rows = []\<rparr>
       (NamedStyle ''body_style'')
       (PDict Dict [(''row_color'', PStr ''red''), (''id'', PInt 1)]) = Inl ValueError \<and>
   render (PList [PDict Dict [(''row_color'', PStr ''red''), (''id'', PInt 1)]])
       (Some (Map.empty(''view'' \<mapsto> Map.empty))) = Inl ValueError"
  by (simp add: eval_defs)

section \<open>Sequences in a record\<close>

text \<open>
  C7, as amended. A field whose value is a list leaves exactly one entry in the items
  \<open>_flatten\<close> collects, wherever the field stands in the record: the JSON serialisation
  of the whole list when the list is non-empty and its first element is iterable (a
  string, a list or a mapping), and otherwise the \<^verbatim>\<open>str\<close> of the elements joined with a
  comma and a space, the empty list giving the empty string.
\<close>

theorem flatten_sequence_field:
  "flatten_items (pre @ (k, PList xs) # post) parent_key =
     flatten_items pre parent_key @
     [(make_key parent_key k,
       PStr (if xs \<noteq> [] \<and> is_iterable (hd xs) then json_dumps_django (PList xs)
             else join list_sep (map py_str xs)))] @
     flatten_items post parent_key \<and>
   flatten (PDict c [(k, PList xs)]) [] =
     Inr [(k, PStr (if xs \<noteq> [] \<and> is_iterable (hd xs) then json_dumps_django (PList xs)
                    else join list_sep (map py_str xs)))] \<and>
   flatten (PDict c [(k, PList [])]) [] = Inr [(k, PStr [])] \<and>
   flatten (PDict c [(''tags'', PList [PInt 1, PInt 2, PInt 3])]) [] =
     Inr [(''tags'', PStr ''1, 2, 3'')] \<and>
   flatten (PDict c [(''m'', PList [PList [PInt 1, PInt 2], PList [PInt 3, PInt 4]])]) [] =
     Inr [(''m'', PStr ''[[1, 2], [3, 4]]'')]"
  by (cases xs) (simp_all add: flatten_items_append Let_def py_dict_def make_key_def list_sep_def
      json_dumps_django_def py_str_def str_int_def str_nat.simps digit_char_def)

text \<open>
  C7 as stated fails: the first element of \<^verbatim>\<open>[{"id": 1}]\<close> is a mapping, not a sequence,
  and \<open>_flatten\<close> stores the JSON serialisation of the list, not the joined \<^verbatim>\<open>str\<close> of
  its elements.
\<close>

theorem flatten_sequence_of_mappings:
  "flatten (PDict Dict [(''items'', PList [PDict Dict [(''id'', PInt 1)]])]) [] =
     Inr [(''items'', PStr (''[{'' @ [CHR 0x22] @ ''id'' @ [CHR 0x22] @ '': 1}]''))] \<and>
   join list_sep (map py_str [PDict Dict [(''id'', PInt 1)]]) =
     ''{'' @ [CHR 0x27] @ ''id'' @ [CHR 0x27] @ '': 1}'' \<and>
   flatten (PDict Dict [(''items'', PList [PDict Dict [(''id'', PInt 1)]])]) [] \<noteq>
     Inr [(''items'', PStr (join list_sep (map py_str [PDict Dict [(''id'', PInt 1)]])))]"
  by (simp add: eval_defs)

section \<open>Column titles\<close>



section \<open>Configuration lookup\<close>

text \<open>
  C9, as amended. When the named attribute is bound to a falsy value, \<open>get_attribute\<close>
  looks for the accessor \<^verbatim>\<open>get_<name>\<close>. A method found there is called and its result
  takes the place of the value; with no accessor (or a falsy one) the falsy value itself
  stays the result; a truthy accessor that is not callable raises \<^verbatim>\<open>TypeError\<close>. The
  default is returned only when the resulting value is \<^verbatim>\<open>None\<close>.
\<close>

theorem get_attribute_falsy:
  "get_from prop_name = Some (Data v) \<Longrightarrow> \<not> truthy v \<Longrightarrow>
   get_attribute get_from prop_name default_value =
     (case get_from (''get_'' @ prop_name) of
        Some (Method r) \<Rightarrow> Inr (Data (if r = PNone then default_value else r))
      | Some (Data f) \<Rightarrow>
          if truthy f then Inl TypeError
          else Inr (Data (if v = PNone then default_value else v))
      | None \<Rightarrow> Inr (Data (if v = PNone then default_value else v)))"
  by (auto simp add: get_attribute_def getattr_def split: option.splits attr.splits)

text \<open>An empty mapping as attribute, and an accessor returning a header.\<close>

theorem get_attribute_falsy_witness:
  "(Map.empty(''xlsx_header'' \<mapsto> Data (PDict Dict []),
              ''get_xlsx_header'' \<mapsto> Method (PDict Dict [(''tab_title'', PStr ''T'')])))
      ''xlsx_header'' = Some (Data (PDict Dict [])) \<and>
   \<not> truthy (PDict Dict []) \<and>
   get_attribute
     (Map.empty(''xlsx_header'' \<mapsto> Data (PDict Dict []),
                ''get_xlsx_header'' \<mapsto> Method (PDict Dict [(''tab_title'', PStr ''T'')])))
     ''xlsx_header'' (PDict Dict [(''header_title'', PStr ''D'')]) =
   Inr (Data (PDict Dict [(''tab_title'', PStr ''T'')]))"
  using get_attribute_falsy [of
      "Map.empty(''xlsx_header'' \<mapsto> Data (PDict Dict []),
                 ''get_xlsx_header'' \<mapsto> Method (PDict Dict [(''tab_title'', PStr ''T'')]))"
      "''xlsx_header''" "PDict Dict []" "PDict Dict [(''header_title'', PStr ''D'')]"]
  by simp

text \<open>
  C9 as stated fails: with the attribute bound to an empty mapping and no accessor,
  \<open>get_attribute\<close> returns that empty mapping, not the default.
\<close>

theorem get_attribute_returns_falsy:
  "get_attribute (Map.empty(''xlsx_header'' \<mapsto> Data (PDict Dict []))) ''xlsx_header''
     (PDict Dict [(''header_title'', PStr ''D'')]) = Inr (Data (PDict Dict []))"
  by (simp add: get_attribute_def getattr_def)

section \<open>Empty nested mappings\<close>

lemma flatten_empty_mapping_field:
  "flatten_items (pre @ (k, PDict c []) # post) parent_key =
     flatten_items pre parent_key @ flatten_items post parent_key"
  by (simp add: flatten_items_append py_dict_def)

text \<open>
  C10. A field whose value is an empty nested mapping leaves no entry in the flattened
  record, so the spec has it contribute no column and no cell. For \<open>results\<close> a single
  record the column names are the top-level keys of the record, not its flattened keys:
  the record \<^verbatim>\<open>{"a": {}}\<close> flattens to the empty mapping and its body row is empty, and
  yet the column-header row shows \<^verbatim>\<open>a\<close>.
\<close>

theorem empty_mapping_field_column:
  "flatten (PDict ReturnDict [(''a'', PDict Dict [])]) [] = Inr [] \<and>
   ebind (render (PDict ReturnDict [(''a'', PDict Dict [])])
            (Some (Map.empty(''view'' \<mapsto> Map.empty))))
     (\<lambda>r. Inr (cell_values r)) = Inr [[PStr ''a''], []]"
  by (simp add: eval_defs)

end
